theory Spec2Isabelle
  imports Main "HOL-Library.Sublist" "HOL-Library.Multiset"
begin

section \<open>Data model (database/models.py, database/schemas.py)\<close>

text \<open>
  Exceptions are values. \<open>HTTPException\<close> carries the status code and the detail
  string of \<^verbatim>\<open>fastapi.HTTPException\<close>; the other constructors are the Python and
  library exceptions the modelled code can let through.
\<close>

datatype exn =
    HTTPException nat string
  | ValueError
  | AttributeError
  | IntegrityError
  | UnknownHashError

record Role =
  title :: string

text \<open>
  \<^verbatim>\<open>models.User\<close>. The primary key \<^verbatim>\<open>id\<close> is the field \<open>uid\<close> (\<open>id\<close> is HOL's identity
  function). \<open>role\<close> is the object the \<^verbatim>\<open>role\<close> back reference yields.
\<close>

record User =
  uid :: int
  username :: string
  email :: string
  password :: string
  profile_image :: string
  role :: Role

text \<open>
  A field of a pydantic update schema declared \<^verbatim>\<open>Optional[T] = None\<close>: the request left it
  out (\<open>Unset\<close>, which \<^verbatim>\<open>dict(exclude_unset=True)\<close> drops and which reads as \<^verbatim>\<open>None\<close>),
  sent \<^verbatim>\<open>null\<close> (\<open>Null\<close>), or sent a value.
\<close>

datatype 'a field = Unset | Null | Val 'a

text \<open>Python truthiness of an optional string: neither \<^verbatim>\<open>None\<close> nor empty.\<close>

fun truthy :: "string field \<Rightarrow> bool" where
  "truthy (Val s) = (s \<noteq> [])"
| "truthy _ = False"

text \<open>\<^verbatim>\<open>x is not None\<close> on an optional field.\<close>

fun is_not_None :: "'a field \<Rightarrow> bool" where
  "is_not_None (Val _) = True"
| "is_not_None _ = False"

text \<open>
  \<^verbatim>\<open>object_schema.copy(update=schema_object.dict(exclude_unset=True))\<close> on one field: the
  stored value unless the request set the field; \<open>None\<close> is Python's \<^verbatim>\<open>None\<close>.
\<close>

fun copy_update :: "'a \<Rightarrow> 'a field \<Rightarrow> 'a option" where
  "copy_update old Unset = Some old"
| "copy_update old Null = None"
| "copy_update old (Val v) = Some v"

record UserUpdate =
  uu_email :: "string field"
  uu_password :: "string field"
  uu_profile_image :: "string field"

record CommentUpdate =
  cu_content :: "string field"
  cu_is_answer :: "bool field"

text \<open>
  Rows of \<^verbatim>\<open>questions\<close>, \<^verbatim>\<open>comments\<close> and \<^verbatim>\<open>articles\<close>. A foreign key column is nullable, and
  the relationship attribute built on it (\<^verbatim>\<open>comment.author\<close>, \<^verbatim>\<open>comment.question\<close>,
  \<^verbatim>\<open>question.author\<close>) is the row the key points to, or \<^verbatim>\<open>None\<close>. The many-to-many
  collections \<^verbatim>\<open>likes\<close> and \<^verbatim>\<open>dislikes\<close> are Python lists of \<^verbatim>\<open>User\<close> objects.
\<close>

record Question =
  q_title :: string
  q_content :: string
  q_author_id :: "int option"

record Comment =
  content :: string
  is_answer :: bool
  author_id :: "int option"
  question_id :: "int option"

record Article =
  a_title :: string
  a_content :: string
  likes :: "User list"
  dislikes :: "User list"

text \<open>
  The database session. A table is a finite map from primary key to row; \<^verbatim>\<open>users\<close> is the
  list of its rows, in the order a query scans them, because services.py reads it with
  \<^verbatim>\<open>.first()\<close>. Every function that commits returns the new database.
\<close>

record Database =
  users :: "User list"
  questions :: "int \<rightharpoonup> Question"
  comments :: "int \<rightharpoonup> Comment"
  articles :: "int \<rightharpoonup> Article"

section \<open>Generic persistence helpers (database/crud.py)\<close>

text \<open>\<^verbatim>\<open>db.query(models.User).get(object_id)\<close>.\<close>

definition query_get_User :: "Database \<Rightarrow> int \<rightharpoonup> User" where
  "query_get_User db object_id = find (\<lambda>u. uid u = object_id) (users db)"

text \<open>
  \<^verbatim>\<open>get_object\<close>: the first argument is \<^verbatim>\<open>cls.__name__.capitalize()\<close>, the second what
  \<^verbatim>\<open>db.query(cls).get\<close> answers.
\<close>

definition get_object :: "string \<Rightarrow> (int \<rightharpoonup> 'a) \<Rightarrow> int \<Rightarrow> exn + 'a" where
  "get_object cls query_get object_id =
     (case query_get object_id of
        None \<Rightarrow> Inl (HTTPException 404 (cls @ '' with this id does not exist.''))
      | Some db_object \<Rightarrow> Inr db_object)"

text \<open>
  The SQL expressions handed to \<^verbatim>\<open>get_object_by_expression\<close>:
  \<^verbatim>\<open>models.User.email == x\<close> and \<^verbatim>\<open>models.User.username == x\<close>.
\<close>

datatype User_expression = Email_eq string | Username_eq string

fun holds :: "User_expression \<Rightarrow> User \<Rightarrow> bool" where
  "holds (Email_eq x) u = (email u = x)"
| "holds (Username_eq x) u = (username u = x)"

text \<open>
  \<^verbatim>\<open>get_object_by_expression\<close> on the users table: \<^verbatim>\<open>filter(expression).first()\<close>, and the
  404 when \<^verbatim>\<open>raise_404\<close> is set and nothing was found.
\<close>

definition get_object_by_expression ::
  "Database \<Rightarrow> User_expression \<Rightarrow> bool \<Rightarrow> exn + User option" where
  "get_object_by_expression db expression raise_404 =
     (let obj = find (holds expression) (users db)
      in if raise_404 \<and> obj = None
         then Inl (HTTPException 404 ''User with this field does not exist.'')
         else Inr obj)"

text \<open>
  \<^verbatim>\<open>delete_object(cls=models.User, ...)\<close>: 404 when the row is absent, else the row is
  deleted and the session committed. The delete cascades as models.py declares it
  (\<^verbatim>\<open>cascade='all,delete'\<close> on \<^verbatim>\<open>User.questions\<close>, \<^verbatim>\<open>User.comments\<close> and
  \<^verbatim>\<open>Question.comments\<close>, \<^verbatim>\<open>ondelete='CASCADE'\<close> on the two rating tables): the user's
  questions go, the user's comments and the comments under those questions go, and the
  user leaves every \<^verbatim>\<open>likes\<close> and \<^verbatim>\<open>dislikes\<close> collection. Notifications and tags have no
  table in this model.
\<close>

definition delete_object_User :: "Database \<Rightarrow> int \<Rightarrow> exn + Database" where
  "delete_object_User db object_id =
     (case get_object ''User'' (query_get_User db) object_id of
        Inl e \<Rightarrow> Inl e
      | Inr db_object \<Rightarrow>
          let deleted_question =
                (\<lambda>k. case questions db k of
                       None \<Rightarrow> False
                     | Some q \<Rightarrow> q_author_id q = Some (uid db_object));
              deleted_comment =
                (\<lambda>c. author_id c = Some (uid db_object)
                     \<or> (case question_id c of None \<Rightarrow> False | Some k \<Rightarrow> deleted_question k));
              others = filter (\<lambda>u. uid u \<noteq> uid db_object)
          in Inr (db\<lparr>users := others (users db),
                     questions := (\<lambda>k. if deleted_question k then None else questions db k),
                     comments :=
                       (\<lambda>k. case comments db k of
                              None \<Rightarrow> None
                            | Some c \<Rightarrow> if deleted_comment c then None else Some c),
                     articles :=
                       (\<lambda>k. map_option
                              (\<lambda>a. a\<lparr>likes := others (likes a), dislikes := others (dislikes a)\<rparr>)
                              (articles db k))\<rparr>))"

text \<open>
  \<^verbatim>\<open>update_user\<close>. \<open>get_password_hash\<close> is passlib's salted hash, a parameter here. The
  three columns are \<^verbatim>\<open>nullable=False\<close>, so writing \<^verbatim>\<open>None\<close> into one is refused by the
  database. The \<^verbatim>\<open>likes\<close> and \<^verbatim>\<open>dislikes\<close> collections yield the users' current rows, so
  the row is rewritten there as well.
\<close>

definition update_user_crud ::
  "(string \<Rightarrow> string) \<Rightarrow> Database \<Rightarrow> int \<Rightarrow> UserUpdate \<Rightarrow> exn + (User \<times> Database)" where
  "update_user_crud get_password_hash db user_id user =
     (case get_object ''User'' (query_get_User db) user_id of
        Inl e \<Rightarrow> Inl e
      | Inr db_user \<Rightarrow>
          if truthy (uu_email user)
             \<and> (case uu_email user of
                    Val e \<Rightarrow>
                      (case get_object_by_expression db (Email_eq e) False of
                         Inr (Some u) \<Rightarrow> uid u \<noteq> user_id
                       | _ \<Rightarrow> False)
                  | _ \<Rightarrow> False)
          then Inl (HTTPException 403 ''User with this email already exists.'')
          else
            let user' = (if truthy (uu_password user)
                         then user\<lparr>uu_password :=
                                (case uu_password user of
                                   Val p \<Rightarrow> Val (get_password_hash p) | f \<Rightarrow> f)\<rparr>
                         else user)
            in (case (copy_update (email db_user) (uu_email user'),
                      copy_update (password db_user) (uu_password user'),
                      copy_update (profile_image db_user) (uu_profile_image user')) of
                  (Some e, Some p, Some i) \<Rightarrow>
                    let updated = (\<lambda>u. u\<lparr>email := e, password := p, profile_image := i\<rparr>);
                        rows = map (\<lambda>u. if uid u = user_id then updated u else u)
                    in Inr (updated db_user,
                            db\<lparr>users := rows (users db),
                               articles :=
                                 (\<lambda>k. map_option
                                        (\<lambda>a. a\<lparr>likes := rows (likes a),
                                               dislikes := rows (dislikes a)\<rparr>)
                                        (articles db k))\<rparr>)
                | _ \<Rightarrow> Inl IntegrityError))"

section \<open>Route decorators (decorators.py)\<close>

text \<open>
  FastAPI calls an endpoint with keyword arguments only. The decorator reads the two keys
  \<^verbatim>\<open>current_user\<close> and \<^verbatim>\<open>user_id\<close> with \<^verbatim>\<open>kwargs.get\<close>, which gives \<^verbatim>\<open>None\<close> for a key that is
  absent; every other keyword argument lives in the extension of the record (the fields carry the
  prefix \<open>kw_\<close>). A
  \<^verbatim>\<open>models.User\<close> object is always truthy, so \<^verbatim>\<open>(user := kwargs.get('current_user'))\<close> is
  false exactly when the key is absent or \<^verbatim>\<open>None\<close>.
\<close>

record kwargs =
  kw_current_user :: "User option"
  kw_user_id :: "int option"

definition raise_403_if_not_admin ::
  "('k kwargs_scheme \<Rightarrow> exn + 'r) \<Rightarrow> 'k kwargs_scheme \<Rightarrow> exn + 'r" where
  "raise_403_if_not_admin func kw =
     (case kw_current_user kw of
        Some user \<Rightarrow>
          if title (role user) \<noteq> ''Admin''
          then Inl (HTTPException 403 ''You are not an admin.'')
          else func kw
      | None \<Rightarrow> func kw)"

definition raise_403_if_no_access ::
  "('k kwargs_scheme \<Rightarrow> exn + 'r) \<Rightarrow> 'k kwargs_scheme \<Rightarrow> exn + 'r" where
  "raise_403_if_no_access func kw =
     (case kw_current_user kw of
        Some user \<Rightarrow>
          if title (role user) \<noteq> ''Admin'' \<and> Some (uid user) \<noteq> kw_user_id kw
          then Inl (HTTPException 403 ''You are not that user.'')
          else func kw
      | None \<Rightarrow> func kw)"

section \<open>User routes (routers/users/users.py)\<close>

datatype Response = Response nat

text \<open>
  FastAPI calls the decorated endpoint with \<^verbatim>\<open>user_id\<close>, \<^verbatim>\<open>db\<close> and \<^verbatim>\<open>current_user\<close> (and
  \<^verbatim>\<open>user\<close>) as keyword arguments; the wrapper hands the same arguments on to the body.
\<close>

definition delete_user_body :: "int \<Rightarrow> Database \<Rightarrow> exn + (Response \<times> Database)" where
  "delete_user_body user_id db =
     (case delete_object_User db user_id of
        Inl e \<Rightarrow> Inl e
      | Inr db' \<Rightarrow> Inr (Response 204, db'))"

definition delete_user :: "int \<Rightarrow> Database \<Rightarrow> User \<Rightarrow> exn + (Response \<times> Database)" where
  "delete_user user_id db current_user =
     raise_403_if_no_access (\<lambda>kw. delete_user_body user_id db)
       \<lparr>kw_current_user = Some current_user, kw_user_id = Some user_id\<rparr>"

definition update_user ::
  "(string \<Rightarrow> string) \<Rightarrow> int \<Rightarrow> UserUpdate \<Rightarrow> Database \<Rightarrow> User \<Rightarrow> exn + (User \<times> Database)" where
  "update_user get_password_hash user_id user db current_user =
     raise_403_if_no_access (\<lambda>kw. update_user_crud get_password_hash db user_id user)
       \<lparr>kw_current_user = Some current_user, kw_user_id = Some user_id\<rparr>"

section \<open>Identity lookup (services.py)\<close>

text \<open>
  Regular expressions as far as \<^verbatim>\<open>isemail\<close> needs them: a character class is a list of
  inclusive ranges of code points. \<open>fullmatch\<close> decides membership in the language of the
  expression by derivatives, which is when \<^verbatim>\<open>re.fullmatch\<close> finds a match: the pattern has
  no back reference and no look-around, and under \<^verbatim>\<open>fullmatch\<close> the anchors \<^verbatim>\<open>^\<close> and \<^verbatim>\<open>$\<close> at
  its two ends add nothing.
\<close>

datatype rexp =
    Zero
  | One
  | Class "(char \<times> char) list"
  | Alt rexp rexp
  | Seq rexp rexp
  | Star rexp

definition in_class :: "char \<Rightarrow> (char \<times> char) list \<Rightarrow> bool" where
  "in_class c ranges =
     list_ex (\<lambda>(lo, hi). (of_char lo :: nat) \<le> of_char c \<and> (of_char c :: nat) \<le> of_char hi)
       ranges"

fun nullable :: "rexp \<Rightarrow> bool" where
  "nullable Zero = False"
| "nullable One = True"
| "nullable (Class _) = False"
| "nullable (Alt r s) = (nullable r \<or> nullable s)"
| "nullable (Seq r s) = (nullable r \<and> nullable s)"
| "nullable (Star _) = True"

fun deriv :: "char \<Rightarrow> rexp \<Rightarrow> rexp" where
  "deriv c Zero = Zero"
| "deriv c One = Zero"
| "deriv c (Class ranges) = (if in_class c ranges then One else Zero)"
| "deriv c (Alt r s) = Alt (deriv c r) (deriv c s)"
| "deriv c (Seq r s) =
     (if nullable r then Alt (Seq (deriv c r) s) (deriv c s) else Seq (deriv c r) s)"
| "deriv c (Star r) = Seq (deriv c r) (Star r)"

fun fullmatch :: "rexp \<Rightarrow> string \<Rightarrow> bool" where
  "fullmatch r [] = nullable r"
| "fullmatch r (c # cs) = fullmatch (deriv c r) cs"

text \<open>\<^verbatim>\<open>r+\<close> and \<^verbatim>\<open>r{2,}\<close>.\<close>

definition Plus :: "rexp \<Rightarrow> rexp" where
  "Plus r = Seq r (Star r)"

definition At_least_2 :: "rexp \<Rightarrow> rexp" where
  "At_least_2 r = Seq r (Seq r (Star r))"

text \<open>
  The pattern of \<^verbatim>\<open>isemail\<close>,
  \<^verbatim>\<open>^([A-Za-z0-9]+[.-_])*[A-Za-z0-9]+@[A-Za-z0-9-]+(\.[A-Z|a-z]{2,})+$\<close>.
  In it \<^verbatim>\<open>[.-_]\<close> is the range from \<^verbatim>\<open>.\<close> to \<^verbatim>\<open>_\<close>, and \<^verbatim>\<open>[A-Z|a-z]\<close> holds the bar.
\<close>

definition alnum :: rexp where
  "alnum = Class [(CHR ''A'', CHR ''Z''), (CHR ''a'', CHR ''z''), (CHR ''0'', CHR ''9'')]"

definition email_pattern :: rexp where
  "email_pattern =
     Seq (Star (Seq (Plus alnum) (Class [(CHR ''.'', CHR ''_'')])))
    (Seq (Plus alnum)
    (Seq (Class [(CHR ''@'', CHR ''@'')])
    (Seq (Plus (Class [(CHR ''A'', CHR ''Z''), (CHR ''a'', CHR ''z''), (CHR ''0'', CHR ''9''),
                       (CHR ''-'', CHR ''-'')]))
         (Plus (Seq (Class [(CHR ''.'', CHR ''.'')])
                    (At_least_2
                       (Class [(CHR ''A'', CHR ''Z''), (CHR ''|'', CHR ''|''),
                               (CHR ''a'', CHR ''z'')])))))))"

text \<open>The match object is used for its truth value only.\<close>

definition isemail :: "string \<Rightarrow> bool" where
  "isemail email' = fullmatch email_pattern email'"

definition get_user_by_username_or_email :: "Database \<Rightarrow> string \<Rightarrow> exn + User option" where
  "get_user_by_username_or_email db username' =
     (if isemail username'
      then get_object_by_expression db (Email_eq username') False
      else get_object_by_expression db (Username_eq username') False)"

section \<open>Password hashing (security/hashing.py)\<close>

text \<open>
  \<^verbatim>\<open>pwd_context = CryptContext(schemes=["bcrypt"], deprecated="auto")\<close> is passlib's, not
  the repository's. Of \<^verbatim>\<open>pwd_context.verify\<close> the model writes out the step that decides
  whether the context has a scheme for the hash at all: a hash is handed to the bcrypt
  handler when it starts with one of bcrypt's identifiers, and the context raises
  \<^verbatim>\<open>UnknownHashError\<close> (hash could not be identified) when it does not. What the handler
  does with an identified hash (parse it, raise on a malformed one, compare digests) is the
  parameter \<open>bcrypt_verify\<close>.
\<close>

definition bcrypt_ident_values :: "string list" where
  "bcrypt_ident_values = [''$2$'', ''$2a$'', ''$2x$'', ''$2y$'', ''$2b$'']"

definition bcrypt_identify :: "string \<Rightarrow> bool" where
  "bcrypt_identify hash = list_ex (\<lambda>ident. prefix ident hash) bcrypt_ident_values"

definition pwd_context_verify ::
  "(string \<Rightarrow> string \<Rightarrow> exn + bool) \<Rightarrow> string \<Rightarrow> string \<Rightarrow> exn + bool" where
  "pwd_context_verify bcrypt_verify secret hash =
     (if bcrypt_identify hash then bcrypt_verify secret hash else Inl UnknownHashError)"

definition verify_password ::
  "(string \<Rightarrow> string \<Rightarrow> exn + bool) \<Rightarrow> string \<Rightarrow> string \<Rightarrow> exn + bool" where
  "verify_password bcrypt_verify plain_password hashed_password =
     pwd_context_verify bcrypt_verify plain_password hashed_password"

section \<open>Tokens (security/security_token.py)\<close>

text \<open>
  The payload of a token: the two claims the code writes and reads. Times are seconds, a
  \<^verbatim>\<open>timedelta\<close> is a number of seconds, and \<^verbatim>\<open>datetime.utcnow()\<close> is the parameter \<open>utcnow\<close>.
  \<^verbatim>\<open>jwt.encode\<close> and \<^verbatim>\<open>jwt.decode\<close> are python-jose's and are parameters, as is the
  secret key, which is read from the environment or drawn at start-up.
\<close>

record claims =
  sub :: "string option"
  exp :: "int option"

definition ALGORITHM :: string where
  "ALGORITHM = ''HS256''"

definition ACCESS_TOKEN_EXPIRE_MINUTES :: int where
  "ACCESS_TOKEN_EXPIRE_MINUTES = 60"

text \<open>\<^verbatim>\<open>if expires_delta:\<close> -- a \<^verbatim>\<open>timedelta\<close> is false when it is zero, as \<^verbatim>\<open>None\<close> is.\<close>

fun timedelta_truthy :: "int option \<Rightarrow> bool" where
  "timedelta_truthy None = False"
| "timedelta_truthy (Some d) = (d \<noteq> 0)"

definition create_access_token ::
  "(claims \<Rightarrow> string \<Rightarrow> string \<Rightarrow> string) \<Rightarrow> string \<Rightarrow> int \<Rightarrow> claims \<Rightarrow> int option \<Rightarrow> string" where
  "create_access_token jwt_encode SECRET_KEY utcnow data expires_delta =
     (let expire = (case expires_delta of
                      Some d \<Rightarrow> if timedelta_truthy expires_delta then utcnow + d
                                else utcnow + 15 * 60
                    | None \<Rightarrow> utcnow + 15 * 60);
          to_encode = data\<lparr>exp := Some expire\<rparr>
      in jwt_encode to_encode SECRET_KEY ALGORITHM)"

section \<open>Token resolution (dependencies.py)\<close>

text \<open>
  What \<^verbatim>\<open>jwt.decode\<close> raises: \<^verbatim>\<open>JWTError\<close> or one of its two subclasses. The handler
  \<^verbatim>\<open>except JWTError\<close> catches all three.
\<close>

datatype jwt_failure = JWTError | ExpiredSignatureError | JWTClaimsError

definition credentials_exception :: exn where
  "credentials_exception = HTTPException 401 ''Could not validate credentials''"

definition get_user ::
  "(string \<Rightarrow> string \<Rightarrow> string list \<Rightarrow> jwt_failure + claims) \<Rightarrow> string \<Rightarrow> string \<Rightarrow> Database
     \<Rightarrow> exn + User" where
  "get_user jwt_decode SECRET_KEY user_token db =
     (case jwt_decode user_token SECRET_KEY [ALGORITHM] of
        Inl _ \<Rightarrow> Inl credentials_exception
      | Inr payload \<Rightarrow>
          (case sub payload of
             None \<Rightarrow> Inl credentials_exception
           | Some username' \<Rightarrow>
               (case get_user_by_username_or_email db username' of
                  Inl e \<Rightarrow> Inl e
                | Inr None \<Rightarrow> Inl credentials_exception
                | Inr (Some user) \<Rightarrow> Inr user)))"

text \<open>
  \<^verbatim>\<open>str.replace(old, new)\<close>: scanning from the left, every occurrence of \<open>old\<close> that does
  not overlap one already replaced gives way to \<open>new\<close>. For an empty \<open>old\<close> Python puts
  \<open>new\<close> before every character and at the end.
\<close>

function replace_scan :: "string \<Rightarrow> string \<Rightarrow> string \<Rightarrow> string" where
  "replace_scan old new [] = []"
| "replace_scan old new (c # cs) =
     (if old \<noteq> [] \<and> prefix old (c # cs)
      then new @ replace_scan old new (drop (length old) (c # cs))
      else c # replace_scan old new cs)"
  by pat_completeness auto
termination
  by (relation "measure (\<lambda>(old, new, s). length s)") auto

definition str_replace :: "string \<Rightarrow> string \<Rightarrow> string \<Rightarrow> string" where
  "str_replace old new s =
     (if old = [] then new @ concat (map (\<lambda>c. c # new) s) else replace_scan old new s)"

definition get_token_in_query :: "string \<Rightarrow> string" where
  "get_token_in_query token = str_replace ''Bearer '' [] token"

definition get_current_user_by_query ::
  "(string \<Rightarrow> string \<Rightarrow> string list \<Rightarrow> jwt_failure + claims) \<Rightarrow> string \<Rightarrow> string \<Rightarrow> Database
     \<Rightarrow> exn + User" where
  "get_current_user_by_query jwt_decode SECRET_KEY token db =
     get_user jwt_decode SECRET_KEY (get_token_in_query token) db"

section \<open>Comment routes (routers/forum/comments.py)\<close>

text \<open>
  The relationship attributes \<^verbatim>\<open>comment.author\<close>, \<^verbatim>\<open>comment.question\<close> and
  \<^verbatim>\<open>question.author\<close>, and \<^verbatim>\<open>.id\<close> read from one of them: \<^verbatim>\<open>AttributeError\<close> when the
  relationship is \<^verbatim>\<open>None\<close>.
\<close>

definition Comment_author :: "Database \<Rightarrow> Comment \<Rightarrow> User option" where
  "Comment_author db c = (case author_id c of None \<Rightarrow> None | Some i \<Rightarrow> query_get_User db i)"

definition Comment_question :: "Database \<Rightarrow> Comment \<Rightarrow> Question option" where
  "Comment_question db c = (case question_id c of None \<Rightarrow> None | Some i \<Rightarrow> questions db i)"

definition Question_author :: "Database \<Rightarrow> Question \<Rightarrow> User option" where
  "Question_author db q = (case q_author_id q of None \<Rightarrow> None | Some i \<Rightarrow> query_get_User db i)"

definition attr_id :: "User option \<Rightarrow> exn + int" where
  "attr_id obj = (case obj of None \<Rightarrow> Inl AttributeError | Some u \<Rightarrow> Inr (uid u))"

text \<open>
  \<^verbatim>\<open>update_object(cls=models.Comment, ...)\<close>: the stored row with the fields the schema
  object has set written over it. Both columns are \<^verbatim>\<open>nullable=False\<close>.
\<close>

definition update_object_Comment ::
  "Database \<Rightarrow> int \<Rightarrow> CommentUpdate \<Rightarrow> exn + (Comment \<times> Database)" where
  "update_object_Comment db object_id schema_object =
     (case get_object ''Comment'' (comments db) object_id of
        Inl e \<Rightarrow> Inl e
      | Inr db_object \<Rightarrow>
          (case (copy_update (content db_object) (cu_content schema_object),
                 copy_update (is_answer db_object) (cu_is_answer schema_object)) of
             (Some c, Some a) \<Rightarrow>
               let row = db_object\<lparr>content := c, is_answer := a\<rparr>
               in Inr (row, db\<lparr>comments := (comments db)(object_id \<mapsto> row)\<rparr>)
           | _ \<Rightarrow> Inl IntegrityError))"

text \<open>
  \<^verbatim>\<open>update_comment\<close>. Python's \<^verbatim>\<open>and\<close> does not read the right operand when the left one is
  false, so a relationship is followed only behind a field that is present. When neither
  branch is taken the function ends without a \<^verbatim>\<open>return\<close>: the result is \<^verbatim>\<open>None\<close>, and
  nothing was written.
\<close>

definition update_comment ::
  "int \<Rightarrow> CommentUpdate \<Rightarrow> Database \<Rightarrow> User \<Rightarrow> exn + (Comment option \<times> Database)" where
  "update_comment comment_id comment db current_user =
     (if title (role current_user) = ''Admin''
      then (case update_object_Comment db comment_id comment of
              Inl e \<Rightarrow> Inl e
            | Inr (c, db') \<Rightarrow> Inr (Some c, db'))
      else
        (case get_object ''Comment'' (comments db) comment_id of
           Inl e \<Rightarrow> Inl e
         | Inr comment_db \<Rightarrow>
             (case (if truthy (cu_content comment)
                    then (case attr_id (Comment_author db comment_db) of
                            Inl e \<Rightarrow> Inl e
                          | Inr i \<Rightarrow> Inr (uid current_user = i))
                    else Inr False) of
                Inl e \<Rightarrow> Inl e
              | Inr is_author \<Rightarrow>
                  if is_author
                  then (case update_object_Comment db comment_id
                               \<lparr>cu_content = cu_content comment, cu_is_answer = Unset\<rparr> of
                          Inl e \<Rightarrow> Inl e
                        | Inr (c, db') \<Rightarrow> Inr (Some c, db'))
                  else
                    (case (if is_not_None (cu_is_answer comment)
                           then (case Comment_question db comment_db of
                                   None \<Rightarrow> Inl AttributeError
                                 | Some q \<Rightarrow>
                                     (case attr_id (Question_author db q) of
                                        Inl e \<Rightarrow> Inl e
                                      | Inr i \<Rightarrow> Inr (uid current_user = i)))
                           else Inr False) of
                       Inl e \<Rightarrow> Inl e
                     | Inr is_question_author \<Rightarrow>
                         if is_question_author
                         then (case update_object_Comment db comment_id
                                      \<lparr>cu_content = Unset, cu_is_answer = cu_is_answer comment\<rparr> of
                                 Inl e \<Rightarrow> Inl e
                               | Inr (c, db') \<Rightarrow> Inr (Some c, db'))
                         else Inr (None, db)))))"

text \<open>
  The decision table of the specification, in its words: an Admin may change any field,
  the comment's author only the content, the parent question's author only the is-answer
  flag, and every other combination is denied. It is what \<^verbatim>\<open>update_comment\<close> is compared
  with.
\<close>

datatype comment_field = Content | Is_answer

definition decision_table :: "bool \<Rightarrow> bool \<Rightarrow> bool \<Rightarrow> comment_field \<Rightarrow> bool" where
  "decision_table is_admin is_author is_question_author f =
     (is_admin \<or> (is_author \<and> f = Content) \<or> (is_question_author \<and> f = Is_answer))"

section \<open>Article rating (database/crud.py, database/schemas.py)\<close>

datatype ArticleRatingType = Likes | Dislikes

text \<open>\<^verbatim>\<open>schemas.ArticleRatingType._member_names_\<close>, in the order of declaration.\<close>

definition member_names :: "ArticleRatingType list" where
  "member_names = [Likes, Dislikes]"

text \<open>\<^verbatim>\<open>names.index(x)\<close> for a member \<open>x\<close>, and \<^verbatim>\<open>names[i]\<close>, where a negative index counts from the end.\<close>

fun index_of :: "'a list \<Rightarrow> 'a \<Rightarrow> int" where
  "index_of [] x = 0"
| "index_of (y # ys) x = (if y = x then 0 else 1 + index_of ys x)"

definition subscript :: "'a list \<Rightarrow> int \<Rightarrow> 'a" where
  "subscript xs i = (if i < 0 then xs ! nat (int (length xs) + i) else xs ! nat i)"

fun getattr :: "Article \<Rightarrow> ArticleRatingType \<Rightarrow> User list" where
  "getattr a Likes = likes a"
| "getattr a Dislikes = dislikes a"

fun setattr :: "Article \<Rightarrow> ArticleRatingType \<Rightarrow> User list \<Rightarrow> Article" where
  "setattr a Likes v = a\<lparr>likes := v\<rparr>"
| "setattr a Dislikes v = a\<lparr>dislikes := v\<rparr>"

text \<open>
  \<^verbatim>\<open>update_article_rating\<close>. \<^verbatim>\<open>data.pop(data.index(x))\<close> takes the first occurrence of \<open>x\<close>
  out of the list, which is \<open>remove1\<close>; two \<^verbatim>\<open>User\<close> objects of one session are equal when
  they are the same row.
\<close>

definition update_article_rating ::
  "Database \<Rightarrow> int \<Rightarrow> User \<Rightarrow> ArticleRatingType \<Rightarrow> exn + (Article \<times> Database)" where
  "update_article_rating db article_id user rating_type =
     (case get_object ''Article'' (articles db) article_id of
        Inl e \<Rightarrow> Inl e
      | Inr article_db \<Rightarrow>
          (case get_object ''User'' (query_get_User db) (uid user) of
             Inl e \<Rightarrow> Inl e
           | Inr user_db \<Rightarrow>
               let data_main = getattr article_db rating_type;
                   article' =
                     (if user_db \<in> set data_main
                      then setattr article_db rating_type (remove1 user_db data_main)
                      else
                        let a1 = setattr article_db rating_type (data_main @ [user_db]);
                            names = member_names;
                            other = subscript names (index_of names rating_type - 1);
                            data_secondary = getattr a1 other
                        in if user_db \<in> set data_secondary
                           then setattr a1 other (remove1 user_db data_secondary)
                           else a1)
               in Inr (article', db\<lparr>articles := (articles db)(article_id \<mapsto> article')\<rparr>)))"

section \<open>Chat (routers/chat/socket_manager.py, routers/chat/chat.py)\<close>

text \<open>
  A \<^verbatim>\<open>WebSocket\<close> object is its identity, a number. JSON values are what \<^verbatim>\<open>send_json\<close> and
  \<^verbatim>\<open>receive_json\<close> carry; a Python \<^verbatim>\<open>dict\<close> is the list of its items in insertion order.
\<close>

type_synonym WebSocket = nat

datatype json =
    JNull
  | JBool bool
  | JNumber int
  | JString string
  | JArray "json list"
  | JObject "(string \<times> json) list"

text \<open>\<^verbatim>\<open>d[key] = value\<close> on a dict: an existing key keeps its place.\<close>

fun setitem :: "(string \<times> json) list \<Rightarrow> string \<Rightarrow> json \<Rightarrow> (string \<times> json) list" where
  "setitem [] key v = [(key, v)]"
| "setitem ((k, w) # d) key v = (if k = key then (k, v) # d else (k, w) # setitem d key v)"

text \<open>
  The state the chat code acts on: the list of the one \<^verbatim>\<open>SocketManager\<close>, the handshakes
  accepted so far, and every \<^verbatim>\<open>ws.send_json(data)\<close> made so far, in order. Each function
  below is one stretch of code that runs without another task in between.
\<close>

record Chat =
  active_connections :: "(WebSocket \<times> User) list"
  accepted :: "WebSocket list"
  delivered :: "(WebSocket \<times> json) list"

definition SocketManager_init :: Chat where
  "SocketManager_init = \<lparr>active_connections = [], accepted = [], delivered = []\<rparr>"

definition connect :: "Chat \<Rightarrow> WebSocket \<Rightarrow> User \<Rightarrow> Chat" where
  "connect st websocket user =
     st\<lparr>accepted := accepted st @ [websocket],
        active_connections := active_connections st @ [(websocket, user)]\<rparr>"

text \<open>\<^verbatim>\<open>list.remove(x)\<close> takes the first \<open>x\<close> out and raises \<^verbatim>\<open>ValueError\<close> when there is none.\<close>

definition disconnect :: "Chat \<Rightarrow> WebSocket \<Rightarrow> User \<Rightarrow> exn + Chat" where
  "disconnect st websocket user =
     (if (websocket, user) \<in> set (active_connections st)
      then Inr (st\<lparr>active_connections := remove1 (websocket, user) (active_connections st)\<rparr>)
      else Inl ValueError)"

fun send_loop :: "(WebSocket \<times> User) list \<Rightarrow> json \<Rightarrow> Chat \<Rightarrow> Chat" where
  "send_loop [] data st = st"
| "send_loop ((ws, user) # rest) data st =
     send_loop rest data (st\<lparr>delivered := delivered st @ [(ws, data)]\<rparr>)"

definition send :: "Chat \<Rightarrow> json \<Rightarrow> Chat" where
  "send st data = send_loop (active_connections st) data st"

text \<open>
  The handler \<^verbatim>\<open>chat\<close>, in the three stretches between its waits. \<open>chat_open\<close> is the
  dependency \<^verbatim>\<open>get_current_user_by_query\<close> and the code up to the loop; when the dependency
  raises, the handler is never entered. It returns the exception or what the handler keeps
  in its frame, \<^verbatim>\<open>current_user\<close> and \<^verbatim>\<open>response\<close>, and beside it the state it leaves.
\<close>

definition chat_open ::
  "(string \<Rightarrow> string \<Rightarrow> string list \<Rightarrow> jwt_failure + claims) \<Rightarrow> string \<Rightarrow> Database
     \<Rightarrow> Chat \<Rightarrow> WebSocket \<Rightarrow> string \<Rightarrow> (exn + User \<times> (string \<times> json) list) \<times> Chat" where
  "chat_open jwt_decode SECRET_KEY db st websocket token =
     (case get_current_user_by_query jwt_decode SECRET_KEY token db of
        Inl e \<Rightarrow> (Inl e, st)
      | Inr current_user \<Rightarrow>
          let st1 = connect st websocket current_user;
              response = [(''user'', JString (username current_user)),
                          (''message'', JString ''connected to the chat''),
                          (''connection'', JBool True)]
          in (Inr (current_user, response), send st1 (JObject response)))"

definition chat_receive :: "Chat \<Rightarrow> json \<Rightarrow> Chat" where
  "chat_receive st data = send st data"

definition chat_disconnect ::
  "Chat \<Rightarrow> WebSocket \<Rightarrow> User \<Rightarrow> (string \<times> json) list \<Rightarrow> exn + Chat" where
  "chat_disconnect st websocket current_user response =
     (case disconnect st websocket current_user of
        Inl e \<Rightarrow> Inl e
      | Inr st1 \<Rightarrow>
          Inr (send st1 (JObject (setitem response ''message'' (JString ''left the chat'')))))"

text \<open>
  The loop of one handler over what its connection brings: messages until the
  disconnect, which ends the handler.
\<close>

datatype inbound = Receive_json json | WebSocketDisconnect

fun chat_loop ::
  "Chat \<Rightarrow> WebSocket \<Rightarrow> User \<Rightarrow> (string \<times> json) list \<Rightarrow> inbound list \<Rightarrow> exn + Chat" where
  "chat_loop st websocket current_user response [] = Inr st"
| "chat_loop st websocket current_user response (Receive_json data # rest) =
     chat_loop (chat_receive st data) websocket current_user response rest"
| "chat_loop st websocket current_user response (WebSocketDisconnect # rest) =
     chat_disconnect st websocket current_user response"

text \<open>
  Runs of the registry alone: a sequence of \<^verbatim>\<open>connect\<close> and \<^verbatim>\<open>disconnect\<close> calls, stopped
  by the first exception.
\<close>

datatype registry_op = Connect WebSocket User | Disconnect WebSocket User

fun run :: "registry_op list \<Rightarrow> Chat \<Rightarrow> exn + Chat" where
  "run [] st = Inr st"
| "run (Connect ws u # ops) st = run ops (connect st ws u)"
| "run (Disconnect ws u # ops) st =
     (case disconnect st ws u of Inl e \<Rightarrow> Inl e | Inr st' \<Rightarrow> run ops st')"

fun connects :: "registry_op list \<Rightarrow> (WebSocket \<times> User) list" where
  "connects [] = []"
| "connects (Connect ws u # ops) = (ws, u) # connects ops"
| "connects (Disconnect ws u # ops) = connects ops"

fun disconnects :: "registry_op list \<Rightarrow> (WebSocket \<times> User) list" where
  "disconnects [] = []"
| "disconnects (Connect ws u # ops) = disconnects ops"
| "disconnects (Disconnect ws u # ops) = (ws, u) # disconnects ops"

text \<open>
  Every disconnect matches a prior connect: read from the left, each \<open>Disconnect\<close> names a
  connection that is open at that point, \<open>opened\<close> being the connections open at the start.
\<close>

fun matching :: "registry_op list \<Rightarrow> (WebSocket \<times> User) multiset \<Rightarrow> bool" where
  "matching [] opened = True"
| "matching (Connect ws u # ops) opened = matching ops (add_mset (ws, u) opened)"
| "matching (Disconnect ws u # ops) opened =
     ((ws, u) \<in># opened \<and> matching ops (opened - {#(ws, u)#}))"

section \<open>Sample data\<close>

text \<open>
  A small database on which the theorems below are exercised. \<open>bob\<close> wrote comment 1
  under his own question 10 and comment 2 under \<open>carol\<close>'s question 11; \<open>carol\<close>'s username
  has the shape of an email address.
\<close>

definition admin :: User where
  "admin = \<lparr>uid = 1, username = ''admin'', email = ''admin@observers.com'',
     password = ''$2b$12$stored'', profile_image = ''default.jpg'', role = \<lparr>title = ''Admin''\<rparr>\<rparr>"

definition bob :: User where
  "bob = \<lparr>uid = 2, username = ''bob'', email = ''bob@example.com'',
     password = ''$2b$12$stored'', profile_image = ''default.jpg'', role = \<lparr>title = ''User''\<rparr>\<rparr>"

definition carol :: User where
  "carol = \<lparr>uid = 3, username = ''carol@example.com'', email = ''carol@mail.example.com'',
     password = ''$2b$12$stored'', profile_image = ''default.jpg'', role = \<lparr>title = ''User''\<rparr>\<rparr>"

definition sample_db :: Database where
  "sample_db =
     \<lparr>users = [admin, bob, carol],
      questions = [10 \<mapsto> \<lparr>q_title = ''q1'', q_content = ''text'', q_author_id = Some 2\<rparr>,
                   11 \<mapsto> \<lparr>q_title = ''q2'', q_content = ''text'', q_author_id = Some 3\<rparr>],
      comments = [1 \<mapsto> \<lparr>content = ''old'', is_answer = False, author_id = Some 2,
                          question_id = Some 10\<rparr>,
                  2 \<mapsto> \<lparr>content = ''old'', is_answer = False, author_id = Some 2,
                          question_id = Some 11\<rparr>],
      articles = [5 \<mapsto> \<lparr>a_title = ''news'', a_content = ''text'', likes = [],
                          dislikes = [carol]\<rparr>]\<rparr>"

text \<open>A decoder that knows one token, signed for \<open>bob\<close>, and rejects every other string.\<close>

definition sample_decode :: "string \<Rightarrow> string \<Rightarrow> string list \<Rightarrow> jwt_failure + claims" where
  "sample_decode token key algorithms =
     (if token = ''header.payload.signature''
      then Inr \<lparr>sub = Some ''bob'', exp = Some 3600\<rparr>
      else Inl JWTError)"

section \<open>Theorems\<close>

lemmas sample = admin_def bob_def carol_def sample_db_def

subsection \<open>Admin-or-owner guard\<close>

text \<open>
  C4. For every actor with a role and every target user id, a function behind
  \<^verbatim>\<open>raise_403_if_no_access\<close> runs exactly when the actor's role title is \<^verbatim>\<open>Admin\<close> or the
  actor's id is the target id; otherwise the call is the 403 of the decorator, whatever the
  function is, so the function has not run. This holds for any decorated function and in
  particular for the two user routes, \<^verbatim>\<open>delete_user\<close> and \<^verbatim>\<open>update_user\<close>.
\<close>

theorem admin_or_owner_guard:
  "raise_403_if_no_access func (kw\<lparr>kw_current_user := Some actor, kw_user_id := Some target\<rparr>) =
     (if title (role actor) = ''Admin'' \<or> uid actor = target
      then func (kw\<lparr>kw_current_user := Some actor, kw_user_id := Some target\<rparr>)
      else Inl (HTTPException 403 ''You are not that user.''))
   \<and> delete_user target db actor =
     (if title (role actor) = ''Admin'' \<or> uid actor = target
      then delete_user_body target db
      else Inl (HTTPException 403 ''You are not that user.''))
   \<and> update_user get_password_hash target upd db actor =
     (if title (role actor) = ''Admin'' \<or> uid actor = target
      then update_user_crud get_password_hash db target upd
      else Inl (HTTPException 403 ''You are not that user.''))"
  by (simp add: raise_403_if_no_access_def delete_user_def update_user_def)

subsection \<open>Identity lookup by the shape of the subject\<close>

lemma find_SomeD:
  "find P us = Some u \<Longrightarrow> P u \<and> u \<in> set us"
  by (induction us) (auto split: if_splits)

text \<open>
  C6. For every subject string exactly one lookup is made, with an expression chosen by
  \<^verbatim>\<open>isemail\<close> of the string alone: the email column when the string matches the pattern, the
  username column otherwise. The answer is the first user whose field so chosen is the
  string, and \<^verbatim>\<open>None\<close> exactly when no user has it there.
\<close>

theorem dual_mode_lookup:
  "get_user_by_username_or_email db s =
     get_object_by_expression db (if isemail s then Email_eq s else Username_eq s) False
   \<and> get_user_by_username_or_email db s =
     Inr (find (\<lambda>u. if isemail s then email u = s else username u = s) (users db))
   \<and> (get_user_by_username_or_email db s = Inr (Some u) \<longrightarrow>
         u \<in> set (users db) \<and> (if isemail s then email u = s else username u = s))
   \<and> (get_user_by_username_or_email db s = Inr None \<longleftrightarrow>
         (\<forall>u \<in> set (users db). if isemail s then email u \<noteq> s else username u \<noteq> s))"
proof (cases "isemail s")
  case True
  have h: "holds (Email_eq s) = (\<lambda>u. email u = s)" by (rule ext) simp
  show ?thesis
    using True
    by (auto simp: get_user_by_username_or_email_def get_object_by_expression_def h
        find_None_iff dest: find_SomeD)
next
  case False
  have h: "holds (Username_eq s) = (\<lambda>u. username u = s)" by (rule ext) simp
  show ?thesis
    using False
    by (auto simp: get_user_by_username_or_email_def get_object_by_expression_def h
        find_None_iff dest: find_SomeD)
qed

subsection \<open>Token resolution\<close>

text \<open>
  Whatever \<^verbatim>\<open>jwt.decode\<close> raises, a payload without \<^verbatim>\<open>sub\<close> and a subject no user has all
  end in the one \<^verbatim>\<open>credentials_exception\<close>: \<^verbatim>\<open>get_user\<close> has no other failure.
\<close>

lemma get_user_failure_uniform:
  "get_user jwt_decode SECRET_KEY user_token db = Inl e \<Longrightarrow> e = credentials_exception"
  by (auto simp: get_user_def get_user_by_username_or_email_def get_object_by_expression_def
      split: sum.splits option.splits if_splits)

lemma get_user_failure_modes:
  "(jwt_decode user_token SECRET_KEY [ALGORITHM] = Inl f \<longrightarrow>
      get_user jwt_decode SECRET_KEY user_token db =
        Inl (HTTPException 401 ''Could not validate credentials''))
   \<and> (jwt_decode user_token SECRET_KEY [ALGORITHM] = Inr payload \<and> sub payload = None \<longrightarrow>
      get_user jwt_decode SECRET_KEY user_token db =
        Inl (HTTPException 401 ''Could not validate credentials''))
   \<and> (jwt_decode user_token SECRET_KEY [ALGORITHM] = Inr payload \<and> sub payload = Some s
        \<and> get_user_by_username_or_email db s = Inr None \<longrightarrow>
      get_user jwt_decode SECRET_KEY user_token db =
        Inl (HTTPException 401 ''Could not validate credentials''))"
  by (simp add: get_user_def credentials_exception_def)

text \<open>
  C2. A token issued with a time to live of zero is not an expired token: a zero
  \<^verbatim>\<open>timedelta\<close> is false in \<^verbatim>\<open>if expires_delta:\<close>, so \<^verbatim>\<open>create_access_token\<close> signs the expiry
  \<open>utcnow + 900\<close>, and the token is the one issued with no time to live at all.
\<close>

theorem zero_ttl_token_expires_in_15_minutes:
  "create_access_token jwt_encode SECRET_KEY utcnow data (Some 0) =
     jwt_encode (data\<lparr>exp := Some (utcnow + 900)\<rparr>) SECRET_KEY ''HS256''
   \<and> create_access_token jwt_encode SECRET_KEY utcnow data (Some 0) =
     create_access_token jwt_encode SECRET_KEY utcnow data None"
  by (simp add: create_access_token_def ALGORITHM_def)

subsection \<open>Password verification\<close>

text \<open>
  C3, as amended. \<^verbatim>\<open>verify_password\<close> has no handler of its own. It returns a boolean
  exactly when the stored hash starts with a bcrypt identifier and the bcrypt handler
  returns one; for a string that no scheme of the context identifies it raises
  \<^verbatim>\<open>UnknownHashError\<close>, and what the handler raises on an identified hash it raises too.
\<close>

theorem verify_password_raises_on_unknown_hash:
  "verify_password bcrypt_verify plain_password hashed_password =
     (if bcrypt_identify hashed_password then bcrypt_verify plain_password hashed_password
      else Inl UnknownHashError)
   \<and> ((\<exists>b. verify_password bcrypt_verify plain_password hashed_password = Inr b) \<longleftrightarrow>
        bcrypt_identify hashed_password
        \<and> (\<exists>b. bcrypt_verify plain_password hashed_password = Inr b))"
  by (simp add: verify_password_def pwd_context_verify_def)

text \<open>
  C3 as stated fails: on the malformed hash \<^verbatim>\<open>not-a-bcrypt-hash\<close> the call raises instead
  of returning \<^verbatim>\<open>False\<close>, whatever the bcrypt handler would answer.
\<close>

theorem verify_password_malformed_hash_raises:
  "verify_password (\<lambda>secret hash. Inr False) ''secret'' ''not-a-bcrypt-hash''
     = Inl UnknownHashError"
  by (simp add: verify_password_def pwd_context_verify_def bcrypt_identify_def
      bcrypt_ident_values_def)

subsection \<open>The token of the chat query\<close>

declare replace_scan.simps(2) [simp del]

lemma replace_scan_hit:
  "old \<noteq> [] \<Longrightarrow> prefix old (c # cs) \<Longrightarrow>
   replace_scan old new (c # cs) = new @ replace_scan old new (drop (length old) (c # cs))"
  by (subst replace_scan.simps(2)) simp

lemma replace_scan_miss:
  "\<not> prefix old (c # cs) \<Longrightarrow> replace_scan old new (c # cs) = c # replace_scan old new cs"
  by (subst replace_scan.simps(2)) simp

lemma replace_scan_absent:
  "\<not> sublist old s \<Longrightarrow> replace_scan old new s = s"
proof (induction s)
  case Nil
  then show ?case by simp
next
  case (Cons c cs)
  have np: "\<not> prefix old (c # cs)"
    using Cons.prems prefix_imp_sublist by blast
  have ns: "\<not> sublist old cs"
    using Cons.prems by (simp add: sublist_Cons_right)
  show ?case using ns Cons.IH by (simp add: replace_scan_miss [OF np])
qed

lemma length_replace_scan_Nil: "length (replace_scan old [] s) \<le> length s"
proof (induction s rule: length_induct)
  case (1 s)
  show ?case
  proof (cases s)
    case Nil
    then show ?thesis by simp
  next
    case (Cons c cs)
    show ?thesis
    proof (cases "old \<noteq> [] \<and> prefix old (c # cs)")
      case True
      then have e: "replace_scan old [] (c # cs) = replace_scan old [] (drop (length old) (c # cs))"
        by (simp add: replace_scan_hit)
      have "length (drop (length old) (c # cs)) < length s"
        using True Cons by simp
      then have "length (replace_scan old [] (drop (length old) (c # cs)))
          \<le> length (drop (length old) (c # cs))"
        using "1.IH" by blast
      then show ?thesis unfolding Cons e by simp
    next
      case False
      have e: "replace_scan old [] (c # cs) = c # replace_scan old [] cs"
        by (subst replace_scan.simps(2)) (use False in auto)
      have "length (replace_scan old [] cs) \<le> length cs" using "1.IH" Cons by simp
      then show ?thesis unfolding Cons e by simp
    qed
  qed
qed

text \<open>
  An occurrence of \<open>old\<close> cannot begin inside \<open>a\<close> and run into the \<open>old\<close> that follows
  when no proper suffix of \<open>old\<close> is a prefix of it.
\<close>

lemma no_straddle:
  assumes u: "\<And>k. 0 < k \<Longrightarrow> k < length old \<Longrightarrow> drop k old \<noteq> take (length old - k) old"
    and p: "prefix old (a @ old @ b)" and ne: "a \<noteq> []" and len: "length a < length old"
  shows False
proof -
  from p obtain zs where e: "a @ old @ b = old @ zs" by (auto simp: prefix_def)
  have "drop (length a) (a @ old @ b) = old @ b" by simp
  then have "drop (length a) (old @ zs) = old @ b" using e by simp
  then have "drop (length a) old @ zs = old @ b" using len by simp
  then have "take (length old - length a) (drop (length a) old @ zs) =
      take (length old - length a) (old @ b)" by simp
  then have "drop (length a) old = take (length old - length a) old" by simp
  moreover have "0 < length a" using ne by simp
  ultimately show False using u len by blast
qed

lemma replace_scan_split:
  assumes u: "\<And>k. 0 < k \<Longrightarrow> k < length old \<Longrightarrow> drop k old \<noteq> take (length old - k) old"
    and ne: "old \<noteq> []"
  shows "replace_scan old [] (a @ old @ b) = replace_scan old [] a @ replace_scan old [] b"
proof (induction a rule: length_induct)
  case (1 a)
  show ?case
  proof (cases a)
    case Nil
    have "replace_scan old [] (old @ b) = replace_scan old [] (drop (length old) (old @ b))"
      using ne by (cases old) (simp_all add: replace_scan_hit)
    then show ?thesis using Nil by simp
  next
    case (Cons c cs)
    show ?thesis
    proof (cases "prefix old (c # cs)")
      case True
      then have len: "length old \<le> length (c # cs)" by (rule prefix_length_le)
      have pw: "prefix old (c # cs @ old @ b)"
        using True prefix_prefix [of old "c # cs" "old @ b"] by simp
      have g: "drop (length old) (xs @ ys) = drop (length old) xs @ ys"
        if "length old \<le> length xs" for xs ys :: string
        using that by simp
      have d: "drop (length old) (c # cs @ old @ b) = drop (length old) (c # cs) @ old @ b"
        using g [of "c # cs" "old @ b"] len by simp
      have l: "replace_scan old [] (c # cs @ old @ b) =
          replace_scan old [] (drop (length old) (c # cs) @ old @ b)"
        using replace_scan_hit [OF ne pw, of "[]"] d by simp
      have r: "replace_scan old [] (c # cs) = replace_scan old [] (drop (length old) (c # cs))"
        using replace_scan_hit [OF ne True, of "[]"] by simp
      have "length (drop (length old) (c # cs)) < length a"
        using ne Cons by simp
      then have ih: "replace_scan old [] (drop (length old) (c # cs) @ old @ b) =
          replace_scan old [] (drop (length old) (c # cs)) @ replace_scan old [] b"
        using "1.IH" by blast
      show ?thesis unfolding Cons using l r ih by simp
    next
      case False
      have nw: "\<not> prefix old (c # cs @ old @ b)"
      proof
        assume pw: "prefix old (c # cs @ old @ b)"
        show False
        proof (cases "length (c # cs) < length old")
          case True
          show False
            using no_straddle [of old "c # cs" b] u pw True by simp
        next
          case F: False
          from pw obtain zs where "c # cs @ old @ b = old @ zs" by (auto simp: prefix_def)
          then have t: "take (length old) (c # cs @ old @ b) = old" by simp
          have h: "take (length old) (xs @ ys) = take (length old) xs"
            if "length old \<le> length xs" for xs ys :: string
            using that by simp
          have "take (length old) (c # cs @ old @ b) = take (length old) (c # cs)"
            using h [of "c # cs" "old @ b"] F by simp
          with t have "take (length old) (c # cs) = old" by simp
          then have "prefix old (c # cs)" by (metis take_is_prefix)
          with False show False by simp
        qed
      qed
      have l: "replace_scan old [] (c # cs @ old @ b) = c # replace_scan old [] (cs @ old @ b)"
        using replace_scan_miss [OF nw] .
      have r: "replace_scan old [] (c # cs) = c # replace_scan old [] cs"
        using replace_scan_miss [OF False] .
      have ih: "replace_scan old [] (cs @ old @ b) =
          replace_scan old [] cs @ replace_scan old [] b"
        using "1.IH" Cons by simp
      show ?thesis unfolding Cons using l r ih by simp
    qed
  qed
qed

lemma Bearer_unbordered:
  assumes "0 < k" and "k < length ''Bearer ''"
  shows "drop k ''Bearer '' \<noteq> take (length ''Bearer '' - k) ''Bearer ''"
proof -
  from assms have "k = 1 \<or> k = 2 \<or> k = 3 \<or> k = 4 \<or> k = 5 \<or> k = 6" by auto
  then show ?thesis by (elim disjE) simp_all
qed

lemma get_token_in_query_split:
  "get_token_in_query (a @ ''Bearer '' @ b) = get_token_in_query a @ get_token_in_query b"
proof -
  have "replace_scan ''Bearer '' [] (a @ ''Bearer '' @ b) =
      replace_scan ''Bearer '' [] a @ replace_scan ''Bearer '' [] b"
    by (rule replace_scan_split [OF Bearer_unbordered]) simp_all
  then show ?thesis by (simp add: get_token_in_query_def str_replace_def)
qed

lemma get_token_in_query_length: "length (get_token_in_query s) \<le> length s"
  using length_replace_scan_Nil [of "''Bearer ''" s]
  by (simp add: get_token_in_query_def str_replace_def)

text \<open>
  C9. \<^verbatim>\<open>get_token_in_query\<close> is a replacement, not a prefix strip. A token in which
  \<^verbatim>\<open>Bearer \<close> does not occur passes unchanged, so the chat dependency resolves it as the
  header dependency would; every occurrence goes, wherever it stands, the rest being
  treated the same way on both sides of it; and a token in which \<^verbatim>\<open>Bearer \<close> occurs reaches
  \<^verbatim>\<open>get_user\<close> altered and shorter.
\<close>

theorem get_token_in_query_removes_every_Bearer:
  "(\<not> sublist ''Bearer '' token \<longrightarrow>
       get_token_in_query token = token
       \<and> get_current_user_by_query jwt_decode SECRET_KEY token db =
           get_user jwt_decode SECRET_KEY token db)
   \<and> get_token_in_query (a @ ''Bearer '' @ b) = get_token_in_query a @ get_token_in_query b
   \<and> get_token_in_query (''Bearer '' @ b) = get_token_in_query b
   \<and> (sublist ''Bearer '' token \<longrightarrow>
       get_token_in_query token \<noteq> token
       \<and> length (get_token_in_query token) < length token
       \<and> get_current_user_by_query jwt_decode SECRET_KEY token db =
           get_user jwt_decode SECRET_KEY (get_token_in_query token) db)"
proof (intro conjI impI)
  assume n: "\<not> sublist ''Bearer '' token"
  then show e: "get_token_in_query token = token"
    by (simp add: get_token_in_query_def str_replace_def replace_scan_absent)
  show "get_current_user_by_query jwt_decode SECRET_KEY token db =
      get_user jwt_decode SECRET_KEY token db"
    by (simp add: get_current_user_by_query_def e)
next
  show "get_token_in_query (a @ ''Bearer '' @ b) = get_token_in_query a @ get_token_in_query b"
    by (rule get_token_in_query_split)
next
  have "get_token_in_query ([] @ ''Bearer '' @ b) = get_token_in_query [] @ get_token_in_query b"
    by (rule get_token_in_query_split)
  then show "get_token_in_query (''Bearer '' @ b) = get_token_in_query b"
    by (simp add: get_token_in_query_def str_replace_def)
next
  assume "sublist ''Bearer '' token"
  then obtain ps ss where t: "token = ps @ ''Bearer '' @ ss" by (auto simp: sublist_def)
  have "length (get_token_in_query token) =
      length (get_token_in_query ps) + length (get_token_in_query ss)"
    unfolding t get_token_in_query_split by simp
  also have "\<dots> \<le> length ps + length ss"
    using get_token_in_query_length [of ps] get_token_in_query_length [of ss] by simp
  also have "\<dots> < length token" unfolding t by simp
  finally show l: "length (get_token_in_query token) < length token" .
  then show "get_token_in_query token \<noteq> token" by auto
  show "get_current_user_by_query jwt_decode SECRET_KEY token db =
      get_user jwt_decode SECRET_KEY (get_token_in_query token) db"
    by (simp add: get_current_user_by_query_def)
qed

subsection \<open>Chat\<close>

lemma send_loop_eq:
  "send_loop cs data st = st\<lparr>delivered := delivered st @ map (\<lambda>(ws, u). (ws, data)) cs\<rparr>"
  by (induction cs arbitrary: st) auto

lemma send_eq:
  "send st data =
     st\<lparr>delivered := delivered st @ map (\<lambda>(ws, u). (ws, data)) (active_connections st)\<rparr>"
  by (simp add: send_def send_loop_eq)

lemma chat_loop_messages:
  "chat_loop st ws u r (map Receive_json ds @ rest) =
     chat_loop (foldl chat_receive st ds) ws u r rest"
  by (induction ds arbitrary: st) simp_all

lemma foldl_chat_receive:
  "foldl chat_receive st ds =
     st\<lparr>delivered := delivered st @
           concat (map (\<lambda>d. map (\<lambda>(w, x). (w, d)) (active_connections st)) ds)\<rparr>"
  by (induction ds arbitrary: st) (simp_all add: chat_receive_def send_eq)

text \<open>
  C7. When the token of the query resolves to a user, \<open>chat_open\<close> accepts the handshake,
  appends the connection with that user to the registry and sends the connected event to
  every registered connection, the new one included. While the handler receives
  messages \<open>ds\<close>, each goes unchanged to every registered connection and the registry stays
  as it is. When the handler then meets the disconnect, after any messages \<open>ds\<close> and
  whatever would have come later, the connection leaves the registry and the left event
  goes to the connections that remain. When the token does not resolve, the state is
  untouched: nothing accepted, nothing registered, nothing sent.
\<close>

theorem chat_lifecycle:
  "(get_current_user_by_query jwt_decode SECRET_KEY token db = Inr u \<longrightarrow>
      (let event = JObject [(''user'', JString (username u)),
                            (''message'', JString ''connected to the chat''),
                            (''connection'', JBool True)];
           st' = snd (chat_open jwt_decode SECRET_KEY db st ws token)
       in fst (chat_open jwt_decode SECRET_KEY db st ws token) =
            Inr (u, [(''user'', JString (username u)),
                     (''message'', JString ''connected to the chat''),
                     (''connection'', JBool True)])
          \<and> accepted st' = accepted st @ [ws]
          \<and> active_connections st' = active_connections st @ [(ws, u)]
          \<and> delivered st' =
              delivered st @ map (\<lambda>(w, x). (w, event)) (active_connections st @ [(ws, u)])))
   \<and> (get_current_user_by_query jwt_decode SECRET_KEY token db = Inl e \<longrightarrow>
        chat_open jwt_decode SECRET_KEY db st ws token = (Inl e, st))
   \<and> chat_loop st ws u
        [(''user'', JString (username u)),
         (''message'', JString ''connected to the chat''),
         (''connection'', JBool True)] (map Receive_json ds) =
       Inr (st\<lparr>delivered := delivered st @
                   concat (map (\<lambda>d. map (\<lambda>(w, x). (w, d)) (active_connections st)) ds)\<rparr>)
   \<and> ((ws, u) \<in> set (active_connections st) \<longrightarrow>
        (let event = JObject [(''user'', JString (username u)),
                              (''message'', JString ''left the chat''),
                              (''connection'', JBool True)];
             remaining = remove1 (ws, u) (active_connections st)
         in chat_loop st ws u
              [(''user'', JString (username u)),
               (''message'', JString ''connected to the chat''),
               (''connection'', JBool True)]
              (map Receive_json ds @ [WebSocketDisconnect] @ later) =
            Inr (st\<lparr>active_connections := remaining,
                     delivered := delivered st @
                       concat (map (\<lambda>d. map (\<lambda>(w, x). (w, d)) (active_connections st)) ds) @
                       map (\<lambda>(w, x). (w, event)) remaining\<rparr>)))"
proof -
  have l: "chat_loop st ws u r (map Receive_json ds) = Inr (foldl chat_receive st ds)" for r
    using chat_loop_messages [of st ws u r ds "[]"] by simp
  show ?thesis
    by (simp add: chat_open_def connect_def send_eq chat_disconnect_def disconnect_def Let_def
        chat_loop_messages foldl_chat_receive l)
qed

lemma run_mset:
  "run ops st = Inr st' \<Longrightarrow>
     mset (active_connections st') + mset (disconnects ops) =
       mset (active_connections st) + mset (connects ops)
     \<and> delivered st' = delivered st"
proof (induction ops st rule: run.induct)
  case (1 st)
  then show ?case by simp
next
  case (2 ws u ops st)
  then show ?case by (simp add: connect_def)
next
  case (3 ws u ops st)
  from "3.prems" obtain st1 where d: "disconnect st ws u = Inr st1" and r: "run ops st1 = Inr st'"
    by (auto split: sum.splits)
  from d have m: "(ws, u) \<in> set (active_connections st)"
    and a: "active_connections st1 = remove1 (ws, u) (active_connections st)"
    and dl: "delivered st1 = delivered st"
    by (auto simp: disconnect_def split: if_splits)
  have "mset (active_connections st1) + {#(ws, u)#} = mset (active_connections st)"
    using m a by simp
  with "3.IH" [OF d r] dl show ?case by (simp add: add.commute add.left_commute)
qed

lemma run_matching:
  "(\<exists>st'. run ops st = Inr st') \<longleftrightarrow> matching ops (mset (active_connections st))"
proof (induction ops st rule: run.induct)
  case (1 st)
  then show ?case by simp
next
  case (2 ws u ops st)
  then show ?case by (simp add: connect_def)
next
  case (3 ws u ops st)
  show ?case
  proof (cases "(ws, u) \<in> set (active_connections st)")
    case True
    then have d: "disconnect st ws u =
        Inr (st\<lparr>active_connections := remove1 (ws, u) (active_connections st)\<rparr>)"
      by (simp add: disconnect_def)
    show ?thesis using "3.IH" [OF d] True d by simp
  next
    case False
    then show ?thesis by (simp add: disconnect_def)
  qed
qed

text \<open>
  C8. From the empty registry, a sequence of connects and disconnects runs through
  exactly when every disconnect matches a connection open at that point. After it, with
  \<open>N\<close> connects and \<open>M\<close> disconnects, \<open>M \<le> N\<close> and \<open>N - M\<close> connections are registered: the
  connects that no disconnect took back. One \<open>send\<close>, which is what a message arriving on
  any connection triggers, delivers the message once per registered connection and to no
  other, and leaves the registry as it is.
\<close>

theorem registry_counting:
  "(matching ops {#} \<longleftrightarrow> (\<exists>st. run ops SocketManager_init = Inr st))
   \<and> (run ops SocketManager_init = Inr st \<longrightarrow>
        length (disconnects ops) \<le> length (connects ops)
        \<and> length (active_connections st) = length (connects ops) - length (disconnects ops)
        \<and> mset (active_connections st) = mset (connects ops) - mset (disconnects ops)
        \<and> delivered (send st data) = map (\<lambda>(ws, u). (ws, data)) (active_connections st)
        \<and> delivered (chat_receive st data) = delivered (send st data)
        \<and> length (delivered (send st data)) = length (connects ops) - length (disconnects ops)
        \<and> fst ` set (delivered (send st data)) = fst ` set (active_connections st)
        \<and> active_connections (send st data) = active_connections st)"
proof (intro conjI impI)
  show "matching ops {#} \<longleftrightarrow> (\<exists>st. run ops SocketManager_init = Inr st)"
    using run_matching [of ops SocketManager_init] by (simp add: SocketManager_init_def)
next
  assume r: "run ops SocketManager_init = Inr st"
  from run_mset [OF r]
  have m: "mset (active_connections st) + mset (disconnects ops) = mset (connects ops)"
    and d: "delivered st = []"
    by (simp_all add: SocketManager_init_def)
  from m have "size (mset (active_connections st) + mset (disconnects ops)) =
      size (mset (connects ops))"
    by simp
  then have l: "length (active_connections st) + length (disconnects ops) = length (connects ops)"
    by simp
  then show "length (disconnects ops) \<le> length (connects ops)" by simp
  from l show n: "length (active_connections st) = length (connects ops) - length (disconnects ops)"
    by simp
  from m show "mset (active_connections st) = mset (connects ops) - mset (disconnects ops)"
    by (metis add_diff_cancel_right')
  show s: "delivered (send st data) = map (\<lambda>(ws, u). (ws, data)) (active_connections st)"
    by (simp add: send_eq d)
  show "delivered (chat_receive st data) = delivered (send st data)"
    by (simp add: chat_receive_def)
  show "length (delivered (send st data)) = length (connects ops) - length (disconnects ops)"
    using s n by simp
  show "fst ` set (delivered (send st data)) = fst ` set (active_connections st)"
    unfolding s by force
  show "active_connections (send st data) = active_connections st"
    by (simp add: send_eq)
qed

subsection \<open>Article rating\<close>

lemma subscript_other:
  "subscript member_names (index_of member_names Likes - 1) = Dislikes"
  "subscript member_names (index_of member_names Dislikes - 1) = Likes"
  by (simp_all add: subscript_def member_names_def)

lemma rating_step:
  assumes a: "articles db article_id = Some a"
    and u: "query_get_User db (uid user) = Some user_db"
    and d: "distinct (likes a)" "distinct (dislikes a)"
  shows "\<exists>a'. update_article_rating db article_id user rating_type =
           Inr (a', db\<lparr>articles := (articles db)(article_id \<mapsto> a')\<rparr>)
       \<and> \<not> (user_db \<in> set (likes a') \<and> user_db \<in> set (dislikes a'))
       \<and> distinct (likes a') \<and> distinct (dislikes a')
       \<and> (let other = subscript member_names (index_of member_names rating_type - 1)
          in (if user_db \<in> set (getattr a rating_type)
              then getattr a' rating_type = remove1 user_db (getattr a rating_type)
                   \<and> getattr a' other = getattr a other
              else getattr a' rating_type = getattr a rating_type @ [user_db]
                   \<and> getattr a' other = remove1 user_db (getattr a other)
                   \<and> user_db \<notin> set (getattr a' other))
             \<and> (user_db \<in> set (getattr a' rating_type) \<longleftrightarrow>
                   user_db \<notin> set (getattr a rating_type)))"
  using a u d
  by (cases rating_type)
     (auto simp: update_article_rating_def get_object_def subscript_other Let_def remove1_idem)

lemma rating_twice:
  assumes a: "articles db article_id = Some a"
    and u: "query_get_User db (uid user) = Some user_db"
    and d: "distinct (likes a)" "distinct (dislikes a)"
    and one: "update_article_rating db article_id user rating_type = Inr (a1, db1)"
  shows "\<exists>a2 db2. update_article_rating db1 article_id user rating_type = Inr (a2, db2)
       \<and> mset (getattr a2 rating_type) = mset (getattr a rating_type)
       \<and> (user_db \<notin> set (getattr a rating_type) \<longrightarrow>
             getattr a2 rating_type = getattr a rating_type)"
proof -
  from rating_step [OF a u d, of rating_type] one
  have db1: "db1 = db\<lparr>articles := (articles db)(article_id \<mapsto> a1)\<rparr>"
    and d1: "distinct (likes a1)" "distinct (dislikes a1)"
    and s1: "if user_db \<in> set (getattr a rating_type)
              then getattr a1 rating_type = remove1 user_db (getattr a rating_type)
              else getattr a1 rating_type = getattr a rating_type @ [user_db]"
    and m1: "user_db \<in> set (getattr a1 rating_type) \<longleftrightarrow> user_db \<notin> set (getattr a rating_type)"
    by (auto simp: Let_def split: if_splits)
  have a1: "articles db1 article_id = Some a1" by (simp add: db1)
  have u1: "query_get_User db1 (uid user) = Some user_db"
    using u by (simp add: db1 query_get_User_def)
  from rating_step [OF a1 u1 d1, of rating_type]
  obtain a2 where r2: "update_article_rating db1 article_id user rating_type =
        Inr (a2, db1\<lparr>articles := (articles db1)(article_id \<mapsto> a2)\<rparr>)"
    and s2: "if user_db \<in> set (getattr a1 rating_type)
              then getattr a2 rating_type = remove1 user_db (getattr a1 rating_type)
              else getattr a2 rating_type = getattr a1 rating_type @ [user_db]"
    by (auto simp: Let_def split: if_splits)
  show ?thesis
  proof (cases "user_db \<in> set (getattr a rating_type)")
    case True
    with s1 m1 s2 have "getattr a2 rating_type = remove1 user_db (getattr a rating_type) @ [user_db]"
      by simp
    then show ?thesis using True r2 by simp
  next
    case False
    with s1 m1 s2 have "getattr a2 rating_type = remove1 user_db (getattr a rating_type @ [user_db])"
      by simp
    then have "getattr a2 rating_type = getattr a rating_type"
      using False by (simp add: remove1_append remove1_idem)
    then show ?thesis using r2 by simp
  qed
qed

text \<open>
  C10. For an article and a user that exist, the two collections holding no row twice
  (each is a table with the primary key \<^verbatim>\<open>(user_id, article_id)\<close>),
  \<^verbatim>\<open>update_article_rating\<close> returns the article committed, in which the user is in at most
  one of \<^verbatim>\<open>likes\<close> and \<^verbatim>\<open>dislikes\<close> and no row is held twice. A user already in the list
  named by \<open>rating_type\<close> is taken out of it and the other list is left alone; a user not
  in it is appended to it and taken out of the other list. A second call with the same
  arguments succeeds and gives the named list its first members back, in the first order
  when the first call had added the user.
\<close>

theorem article_rating_exclusive_toggle:
  assumes a: "articles db article_id = Some a"
    and u: "query_get_User db (uid user) = Some user_db"
    and d: "distinct (likes a)" "distinct (dislikes a)"
  shows "\<exists>a'. update_article_rating db article_id user rating_type =
           Inr (a', db\<lparr>articles := (articles db)(article_id \<mapsto> a')\<rparr>)
       \<and> \<not> (user_db \<in> set (likes a') \<and> user_db \<in> set (dislikes a'))
       \<and> distinct (likes a') \<and> distinct (dislikes a')
       \<and> (let other = subscript member_names (index_of member_names rating_type - 1)
          in (if user_db \<in> set (getattr a rating_type)
              then getattr a' rating_type = remove1 user_db (getattr a rating_type)
                   \<and> getattr a' other = getattr a other
              else getattr a' rating_type = getattr a rating_type @ [user_db]
                   \<and> getattr a' other = remove1 user_db (getattr a other)
                   \<and> user_db \<notin> set (getattr a' other))
             \<and> (user_db \<in> set (getattr a' rating_type) \<longleftrightarrow>
                   user_db \<notin> set (getattr a rating_type)))
       \<and> (\<exists>a2 db2.
             update_article_rating (db\<lparr>articles := (articles db)(article_id \<mapsto> a')\<rparr>)
               article_id user rating_type = Inr (a2, db2)
             \<and> mset (getattr a2 rating_type) = mset (getattr a rating_type)
             \<and> (user_db \<notin> set (getattr a rating_type) \<longrightarrow>
                   getattr a2 rating_type = getattr a rating_type))"
proof -
  from rating_step [OF a u d, of rating_type]
  obtain a' where
    r: "update_article_rating db article_id user rating_type =
           Inr (a', db\<lparr>articles := (articles db)(article_id \<mapsto> a')\<rparr>)"
    and p: "\<not> (user_db \<in> set (likes a') \<and> user_db \<in> set (dislikes a'))
       \<and> distinct (likes a') \<and> distinct (dislikes a')
       \<and> (let other = subscript member_names (index_of member_names rating_type - 1)
          in (if user_db \<in> set (getattr a rating_type)
              then getattr a' rating_type = remove1 user_db (getattr a rating_type)
                   \<and> getattr a' other = getattr a other
              else getattr a' rating_type = getattr a rating_type @ [user_db]
                   \<and> getattr a' other = remove1 user_db (getattr a other)
                   \<and> user_db \<notin> set (getattr a' other))
             \<and> (user_db \<in> set (getattr a' rating_type) \<longleftrightarrow>
                   user_db \<notin> set (getattr a rating_type)))"
    by blast
  from rating_twice [OF a u d r] r p show ?thesis by blast
qed

section \<open>The theorems on the sample data\<close>

text \<open>
  The theorems above that have a hypothesis are applied here to the sample data, their
  hypotheses established by evaluation, and \<^verbatim>\<open>update_comment\<close> is evaluated on it.
\<close>

text \<open>C6 on the sample database: \<open>bob\<close> is found by username, \<open>carol\<close> by her email, and
  \<open>carol\<close>'s username, which has the shape of an email address, finds nobody.\<close>

theorem dual_mode_lookup_witness:
  "get_user_by_username_or_email sample_db ''bob'' = Inr (Some bob)
   \<and> bob \<in> set (users sample_db) \<and> username bob = ''bob''
   \<and> get_user_by_username_or_email sample_db ''carol@mail.example.com'' = Inr (Some carol)
   \<and> get_user_by_username_or_email sample_db ''carol@example.com'' = Inr None"
proof -
  have e: "\<not> isemail ''bob''" "isemail ''carol@mail.example.com''" "isemail ''carol@example.com''"
    by (simp_all add: isemail_def email_pattern_def Plus_def At_least_2_def alnum_def in_class_def)
  have b: "get_user_by_username_or_email sample_db ''bob'' = Inr (Some bob)"
    using e by (simp add: get_user_by_username_or_email_def get_object_by_expression_def sample)
  have c: "get_user_by_username_or_email sample_db ''carol@mail.example.com'' = Inr (Some carol)"
    using e by (simp add: get_user_by_username_or_email_def get_object_by_expression_def sample)
  have n: "get_user_by_username_or_email sample_db ''carol@example.com'' = Inr None"
    using e by (simp add: get_user_by_username_or_email_def get_object_by_expression_def sample)
  from dual_mode_lookup [of sample_db "''bob''" bob] b e
  have "bob \<in> set (users sample_db) \<and> username bob = ''bob''" by metis
  with b c n show ?thesis by simp
qed

text \<open>C9 on a token without \<^verbatim>\<open>Bearer \<close> and on one that holds it twice.\<close>

theorem get_token_in_query_witness:
  "\<not> sublist ''Bearer '' ''header.payload.signature''
   \<and> get_token_in_query ''header.payload.signature'' = ''header.payload.signature''
   \<and> sublist ''Bearer '' ''Bearer header.Bearer payload''
   \<and> get_token_in_query ''Bearer header.Bearer payload'' = ''header.payload''
   \<and> get_token_in_query ''Bearer header.Bearer payload'' \<noteq> ''Bearer header.Bearer payload''"
proof -
  have n: "\<not> sublist ''Bearer '' ''header.payload.signature''"
    by (simp add: sublist_Cons_right)
  have y: "sublist ''Bearer '' ''Bearer header.Bearer payload''"
    by (simp add: sublist_Cons_right)
  have v: "get_token_in_query ''Bearer header.Bearer payload'' = ''header.payload''"
    by (simp add: get_token_in_query_def str_replace_def replace_scan.simps)
  from n get_token_in_query_removes_every_Bearer [of "''header.payload.signature''"]
  have a: "get_token_in_query ''header.payload.signature'' = ''header.payload.signature''"
    by blast
  from y get_token_in_query_removes_every_Bearer [of "''Bearer header.Bearer payload''"]
  have b: "get_token_in_query ''Bearer header.Bearer payload'' \<noteq> ''Bearer header.Bearer payload''"
    by blast
  from n y v a b show ?thesis by blast
qed

lemma resolve_bob:
  "get_current_user_by_query sample_decode ''key'' ''Bearer header.payload.signature'' sample_db
     = Inr bob"
proof -
  have e: "\<not> isemail ''bob''"
    by (simp add: isemail_def email_pattern_def Plus_def At_least_2_def alnum_def in_class_def)
  have t: "get_token_in_query ''Bearer header.payload.signature'' = ''header.payload.signature''"
    by (simp add: get_token_in_query_def str_replace_def replace_scan.simps)
  show ?thesis
    using e
    by (simp add: get_current_user_by_query_def t get_user_def sample_decode_def
        get_user_by_username_or_email_def get_object_by_expression_def sample)
qed

lemma resolve_garbage:
  "get_current_user_by_query sample_decode ''key'' ''Bearer forged'' sample_db
     = Inl (HTTPException 401 ''Could not validate credentials'')"
proof -
  have t: "get_token_in_query ''Bearer forged'' = ''forged''"
    by (simp add: get_token_in_query_def str_replace_def replace_scan.simps)
  show ?thesis
    by (simp add: get_current_user_by_query_def t get_user_def sample_decode_def
        credentials_exception_def)
qed

text \<open>
  C7 with \<open>carol\<close> connected: \<open>bob\<close> opens connection 8 and both hear of it, a forged token
  changes nothing, and when \<open>bob\<close> has sent one message and disconnects, both get the
  message and only \<open>carol\<close> hears that he left.
\<close>

theorem chat_lifecycle_witness:
  "get_current_user_by_query sample_decode ''key'' ''Bearer header.payload.signature'' sample_db
     = Inr bob
   \<and> snd (chat_open sample_decode ''key'' sample_db
             \<lparr>active_connections = [(7, carol)], accepted = [7], delivered = []\<rparr> 8
             ''Bearer header.payload.signature'') =
       \<lparr>active_connections = [(7, carol), (8, bob)], accepted = [7, 8],
        delivered =
          [(7, JObject [(''user'', JString ''bob''), (''message'', JString ''connected to the chat''),
                        (''connection'', JBool True)]),
           (8, JObject [(''user'', JString ''bob''), (''message'', JString ''connected to the chat''),
                        (''connection'', JBool True)])]\<rparr>
   \<and> chat_open sample_decode ''key'' sample_db
        \<lparr>active_connections = [(7, carol)], accepted = [7], delivered = []\<rparr> 9 ''Bearer forged'' =
       (Inl (HTTPException 401 ''Could not validate credentials''),
        \<lparr>active_connections = [(7, carol)], accepted = [7], delivered = []\<rparr>)
   \<and> chat_loop \<lparr>active_connections = [(7, carol), (8, bob)], accepted = [7, 8], delivered = []\<rparr>
        8 bob
        [(''user'', JString ''bob''), (''message'', JString ''connected to the chat''),
         (''connection'', JBool True)]
        [Receive_json (JObject [(''foo'', JString ''bar'')]), WebSocketDisconnect] =
       Inr \<lparr>active_connections = [(7, carol)], accepted = [7, 8],
            delivered =
              [(7, JObject [(''foo'', JString ''bar'')]),
               (8, JObject [(''foo'', JString ''bar'')]),
               (7, JObject [(''user'', JString ''bob''), (''message'', JString ''left the chat''),
                            (''connection'', JBool True)])]\<rparr>"
proof -
  let ?st = "\<lparr>active_connections = [(7, carol)], accepted = [7], delivered = []\<rparr>"
  let ?st2 = "\<lparr>active_connections = [(7, carol), (8, bob)], accepted = [7, 8], delivered = []\<rparr>"
  have m: "(8, bob) \<in> set (active_connections ?st2)" by simp
  have ne: "carol \<noteq> bob" by (simp add: sample)
  from chat_lifecycle [where jwt_decode = sample_decode and SECRET_KEY = "''key''"
      and token = "''Bearer header.payload.signature''" and db = sample_db and u = bob
      and st = ?st and ws = 8] resolve_bob
  have 1: "snd (chat_open sample_decode ''key'' sample_db ?st 8
             ''Bearer header.payload.signature'') =
       \<lparr>active_connections = [(7, carol), (8, bob)], accepted = [7, 8],
        delivered =
          [(7, JObject [(''user'', JString ''bob''), (''message'', JString ''connected to the chat''),
                        (''connection'', JBool True)]),
           (8, JObject [(''user'', JString ''bob''), (''message'', JString ''connected to the chat''),
                        (''connection'', JBool True)])]\<rparr>"
    by (simp add: Let_def bob_def)
  from chat_lifecycle [where jwt_decode = sample_decode and SECRET_KEY = "''key''"
      and token = "''Bearer forged''" and db = sample_db and st = ?st and ws = 9]
    resolve_garbage
  have 2: "chat_open sample_decode ''key'' sample_db ?st 9 ''Bearer forged'' =
       (Inl (HTTPException 401 ''Could not validate credentials''), ?st)"
    by blast
  from chat_lifecycle [where u = bob and st = ?st2 and ws = 8
      and ds = "[JObject [(''foo'', JString ''bar'')]]" and later = "[]"] m ne
  have 3: "chat_loop ?st2 8 bob
        [(''user'', JString ''bob''), (''message'', JString ''connected to the chat''),
         (''connection'', JBool True)]
        [Receive_json (JObject [(''foo'', JString ''bar'')]), WebSocketDisconnect] =
       Inr \<lparr>active_connections = [(7, carol)], accepted = [7, 8],
            delivered =
              [(7, JObject [(''foo'', JString ''bar'')]),
               (8, JObject [(''foo'', JString ''bar'')]),
               (7, JObject [(''user'', JString ''bob''), (''message'', JString ''left the chat''),
                            (''connection'', JBool True)])]\<rparr>"
    by (simp add: Let_def bob_def del: chat_loop.simps)
  from resolve_bob 1 2 3 show ?thesis by blast
qed

text \<open>
  C8 on three connects and one disconnect, and on a disconnect that matches no
  connection.
\<close>

theorem registry_counting_witness:
  "matching [Connect 7 carol, Connect 8 bob, Connect 9 admin, Disconnect 8 bob] {#}
   \<and> run [Connect 7 carol, Connect 8 bob, Connect 9 admin, Disconnect 8 bob] SocketManager_init =
        Inr \<lparr>active_connections = [(7, carol), (9, admin)], accepted = [7, 8, 9], delivered = []\<rparr>
   \<and> length (active_connections
        \<lparr>active_connections = [(7, carol), (9, admin)], accepted = [7, 8, 9], delivered = []\<rparr>) = 3 - 1
   \<and> delivered (send
        \<lparr>active_connections = [(7, carol), (9, admin)], accepted = [7, 8, 9], delivered = []\<rparr>
        (JObject [(''foo'', JString ''bar'')])) =
        [(7, JObject [(''foo'', JString ''bar'')]), (9, JObject [(''foo'', JString ''bar'')])]
   \<and> \<not> matching [Connect 7 carol, Disconnect 8 bob] {#}
   \<and> run [Connect 7 carol, Disconnect 8 bob] SocketManager_init = Inl ValueError"
proof -
  let ?ops = "[Connect 7 carol, Connect 8 bob, Connect 9 admin, Disconnect 8 bob]"
  let ?st = "\<lparr>active_connections = [(7, carol), (9, admin)], accepted = [7, 8, 9], delivered = []\<rparr>"
  have ne: "carol \<noteq> bob" "admin \<noteq> bob" by (simp_all add: sample)
  have r: "run ?ops SocketManager_init = Inr ?st"
    using ne by (simp add: SocketManager_init_def connect_def disconnect_def)
  have f: "run [Connect 7 carol, Disconnect 8 bob] SocketManager_init = Inl ValueError"
    by (simp add: SocketManager_init_def connect_def disconnect_def)
  from registry_counting [where ops = ?ops and st = ?st] r
  have m: "matching ?ops {#}" by blast
  from registry_counting [where ops = ?ops and st = ?st
      and data = "JObject [(''foo'', JString ''bar'')]"] r
  have l: "length (active_connections ?st) = length (connects ?ops) - length (disconnects ?ops)"
    and d: "delivered (send ?st (JObject [(''foo'', JString ''bar'')])) =
       map (\<lambda>(ws, u). (ws, JObject [(''foo'', JString ''bar'')])) (active_connections ?st)"
    by blast+
  from registry_counting [where ops = "[Connect 7 carol, Disconnect 8 bob]"] f
  have nm: "\<not> matching [Connect 7 carol, Disconnect 8 bob] {#}" by simp
  from m r l d nm f show ?thesis by simp
qed

text \<open>C10: \<open>carol\<close>, who dislikes article 5, likes it.\<close>

theorem article_rating_witness:
  "articles sample_db 5 =
     Some \<lparr>a_title = ''news'', a_content = ''text'', likes = [], dislikes = [carol]\<rparr>
   \<and> query_get_User sample_db (uid carol) = Some carol
   \<and> update_article_rating sample_db 5 carol Likes =
       Inr (\<lparr>a_title = ''news'', a_content = ''text'', likes = [carol], dislikes = []\<rparr>,
            sample_db\<lparr>articles := (articles sample_db)(5 \<mapsto>
              \<lparr>a_title = ''news'', a_content = ''text'', likes = [carol], dislikes = []\<rparr>)\<rparr>)
   \<and> (\<exists>a'. update_article_rating sample_db 5 carol Likes =
           Inr (a', sample_db\<lparr>articles := (articles sample_db)(5 \<mapsto> a')\<rparr>)
         \<and> \<not> (carol \<in> set (likes a') \<and> carol \<in> set (dislikes a')))"
proof -
  let ?a = "\<lparr>a_title = ''news'', a_content = ''text'', likes = [], dislikes = [carol]\<rparr>"
  have a: "articles sample_db 5 = Some ?a" by (simp add: sample_db_def)
  have u: "query_get_User sample_db (uid carol) = Some carol"
    by (simp add: query_get_User_def sample)
  have d: "distinct (likes ?a)" "distinct (dislikes ?a)" by simp_all
  have v: "update_article_rating sample_db 5 carol Likes =
       Inr (\<lparr>a_title = ''news'', a_content = ''text'', likes = [carol], dislikes = []\<rparr>,
            sample_db\<lparr>articles := (articles sample_db)(5 \<mapsto>
              \<lparr>a_title = ''news'', a_content = ''text'', likes = [carol], dislikes = []\<rparr>)\<rparr>)"
    using a u
    by (simp add: update_article_rating_def get_object_def subscript_def member_names_def Let_def)
  from article_rating_exclusive_toggle [OF a u d, of Likes]
  have "\<exists>a'. update_article_rating sample_db 5 carol Likes =
           Inr (a', sample_db\<lparr>articles := (articles sample_db)(5 \<mapsto> a')\<rparr>)
         \<and> \<not> (carol \<in> set (likes a') \<and> carol \<in> set (dislikes a'))"
    by blast
  with a u v show ?thesis by blast
qed

lemma sample_rels:
  "comments sample_db 1 =
     Some \<lparr>content = ''old'', is_answer = False, author_id = Some 2, question_id = Some 10\<rparr>"
  "comments sample_db 2 =
     Some \<lparr>content = ''old'', is_answer = False, author_id = Some 2, question_id = Some 11\<rparr>"
  "Comment_author sample_db
     \<lparr>content = ''old'', is_answer = False, author_id = Some 2, question_id = Some 10\<rparr> = Some bob"
  "Comment_author sample_db
     \<lparr>content = ''old'', is_answer = False, author_id = Some 2, question_id = Some 11\<rparr> = Some bob"
  "Comment_question sample_db
     \<lparr>content = ''old'', is_answer = False, author_id = Some 2, question_id = Some 10\<rparr> =
     Some \<lparr>q_title = ''q1'', q_content = ''text'', q_author_id = Some 2\<rparr>"
  "Comment_question sample_db
     \<lparr>content = ''old'', is_answer = False, author_id = Some 2, question_id = Some 11\<rparr> =
     Some \<lparr>q_title = ''q2'', q_content = ''text'', q_author_id = Some 3\<rparr>"
  "Question_author sample_db \<lparr>q_title = ''q1'', q_content = ''text'', q_author_id = Some 2\<rparr> = Some bob"
  "Question_author sample_db \<lparr>q_title = ''q2'', q_content = ''text'', q_author_id = Some 3\<rparr> = Some carol"
  by (simp_all add: sample Comment_author_def Comment_question_def Question_author_def
      query_get_User_def)

text \<open>
  C1. \<^verbatim>\<open>update_comment\<close> on the sample data, against the decision table. \<open>bob\<close>, no Admin,
  wrote comment 1 and the question above it, so the table lets him change the is-answer
  flag, and the code stores the flag when he sends it alone; yet when he sends a new
  content together with the flag, the content branch returns first and the flag is
  dropped. The table lets him, the author of comment 2, change its content; yet the empty
  string he sends fails the truth test, no branch is taken, and the function ends without
  a value. The same end without a value, and not a refusal, is what \<open>carol\<close> gets, who
  may change nothing of comment 1.
\<close>

theorem update_comment_departs_from_table:
  "title (role bob) \<noteq> ''Admin''
   \<and> map_option uid (Comment_author sample_db
        \<lparr>content = ''old'', is_answer = False, author_id = Some 2, question_id = Some 10\<rparr>)
       = Some (uid bob)
   \<and> map_option uid (Question_author sample_db
        \<lparr>q_title = ''q1'', q_content = ''text'', q_author_id = Some 2\<rparr>) = Some (uid bob)
   \<and> decision_table False True True Is_answer
   \<and> update_comment 1 \<lparr>cu_content = Unset, cu_is_answer = Val True\<rparr> sample_db bob =
       Inr (Some \<lparr>content = ''old'', is_answer = True, author_id = Some 2,
                   question_id = Some 10\<rparr>,
            sample_db\<lparr>comments := (comments sample_db)(1 \<mapsto>
              \<lparr>content = ''old'', is_answer = True, author_id = Some 2,
                 question_id = Some 10\<rparr>)\<rparr>)
   \<and> update_comment 1 \<lparr>cu_content = Val ''edited'', cu_is_answer = Val True\<rparr> sample_db bob =
       Inr (Some \<lparr>content = ''edited'', is_answer = False, author_id = Some 2,
                   question_id = Some 10\<rparr>,
            sample_db\<lparr>comments := (comments sample_db)(1 \<mapsto>
              \<lparr>content = ''edited'', is_answer = False, author_id = Some 2,
                 question_id = Some 10\<rparr>)\<rparr>)
   \<and> decision_table False True False Content
   \<and> update_comment 2 \<lparr>cu_content = Val [], cu_is_answer = Unset\<rparr> sample_db bob =
       Inr (None, sample_db)
   \<and> \<not> decision_table False False False Content
   \<and> \<not> decision_table False False False Is_answer
   \<and> update_comment 1 \<lparr>cu_content = Val ''edited'', cu_is_answer = Val True\<rparr> sample_db carol =
       Inr (None, sample_db)"
proof -
  have 0: "update_comment 1 \<lparr>cu_content = Unset, cu_is_answer = Val True\<rparr> sample_db bob =
       Inr (Some \<lparr>content = ''old'', is_answer = True, author_id = Some 2,
                   question_id = Some 10\<rparr>,
            sample_db\<lparr>comments := (comments sample_db)(1 \<mapsto>
              \<lparr>content = ''old'', is_answer = True, author_id = Some 2,
                 question_id = Some 10\<rparr>)\<rparr>)"
    by (simp add: update_comment_def update_object_Comment_def get_object_def sample_rels
        attr_id_def bob_def Let_def)
  have 1: "update_comment 1 \<lparr>cu_content = Val ''edited'', cu_is_answer = Val True\<rparr> sample_db bob =
       Inr (Some \<lparr>content = ''edited'', is_answer = False, author_id = Some 2,
                   question_id = Some 10\<rparr>,
            sample_db\<lparr>comments := (comments sample_db)(1 \<mapsto>
              \<lparr>content = ''edited'', is_answer = False, author_id = Some 2,
                 question_id = Some 10\<rparr>)\<rparr>)"
    by (simp add: update_comment_def update_object_Comment_def get_object_def sample_rels
        attr_id_def bob_def Let_def)
  have 2: "update_comment 2 \<lparr>cu_content = Val [], cu_is_answer = Unset\<rparr> sample_db bob =
       Inr (None, sample_db)"
    by (simp add: update_comment_def update_object_Comment_def get_object_def sample_rels
        attr_id_def bob_def Let_def)
  have 3: "update_comment 1 \<lparr>cu_content = Val ''edited'', cu_is_answer = Val True\<rparr> sample_db carol =
       Inr (None, sample_db)"
    by (simp add: update_comment_def update_object_Comment_def get_object_def sample_rels
        attr_id_def bob_def carol_def Let_def)
  show ?thesis
    using 0 1 2 3 by (simp add: sample_rels decision_table_def) (simp add: bob_def)
qed

end
